theory Spec2Isabelle
  imports Complex_Main "HOL-Library.Multiset"
begin

section \<open>JavaScript values and the host environment\<close>

text \<open>
  The blog renderer of \<^verbatim>\<open>src/blogger.js\<close> works on parsed JSON documents. A JavaScript
  number is an IEEE double: for the operators \<^verbatim>\<open><\<close>, \<^verbatim>\<open>>\<close> and \<^verbatim>\<open>===\<close> it behaves as
  its value in the extended rationals, with \<open>NaN\<close> unordered and unequal to everything.
  A string is a list of code units; \<^typ>\<open>char\<close> stands for a code unit below 256.
\<close>

datatype jsnum = NaN | NegInfinity | Finite rat | PosInfinity

datatype jsval =
    JUndefined
  | JNull
  | JBool bool
  | JNum jsnum
  | JStr string
  | JArr "jsval list"
  | JObj "(string \<times> jsval) list"

datatype error = FetchError | TypeError | Thrown

text \<open>
  What the browser provides and the repository does not define: number and date
  conversions, the date formatter and the network. Every theorem below holds for every
  host.
\<close>

record host =
  StringToNumber :: "string \<Rightarrow> jsnum"
  NumberToString :: "jsnum \<Rightarrow> string"
  DateConstruct :: "jsval \<Rightarrow> jsnum"
  toLocaleString :: "jsnum \<Rightarrow> string"
  fetch :: "string \<Rightarrow> jsval option"

fun join :: "string \<Rightarrow> string list \<Rightarrow> string" where
  "join sep [] = []"
| "join sep [x] = x"
| "join sep (x # y # ys) = x @ sep @ join sep (y # ys)"

text \<open>\<^verbatim>\<open>ToString\<close>: what string concatenation does to a value. An array joins its elements
  with commas, \<^verbatim>\<open>null\<close> and \<^verbatim>\<open>undefined\<close> elements giving the empty string. A parsed
  object that has a member named \<^verbatim>\<open>toString\<close> is outside the model: converting it throws,
  where the model gives the text of a plain object.\<close>

fun ToString :: "host \<Rightarrow> jsval \<Rightarrow> string" where
  "ToString H JUndefined = ''undefined''"
| "ToString H JNull = ''null''"
| "ToString H (JBool b) = (if b then ''true'' else ''false'')"
| "ToString H (JNum n) = NumberToString H n"
| "ToString H (JStr s) = s"
| "ToString H (JArr xs) =
     join '','' (map (\<lambda>x. if x = JUndefined \<or> x = JNull then [] else ToString H x) xs)"
| "ToString H (JObj kvs) = ''[object Object]''"

fun ToPrimitive :: "host \<Rightarrow> jsval \<Rightarrow> jsval" where
  "ToPrimitive H (JArr xs) = JStr (ToString H (JArr xs))"
| "ToPrimitive H (JObj kvs) = JStr (ToString H (JObj kvs))"
| "ToPrimitive H v = v"

fun ToNumber :: "host \<Rightarrow> jsval \<Rightarrow> jsnum" where
  "ToNumber H JUndefined = NaN"
| "ToNumber H JNull = Finite 0"
| "ToNumber H (JBool b) = Finite (if b then 1 else 0)"
| "ToNumber H (JNum n) = n"
| "ToNumber H (JStr s) = StringToNumber H s"
| "ToNumber H v = StringToNumber H (ToString H v)"

fun num_lt :: "jsnum \<Rightarrow> jsnum \<Rightarrow> bool" where
  "num_lt NaN y = False"
| "num_lt x NaN = False"
| "num_lt x NegInfinity = False"
| "num_lt NegInfinity y = True"
| "num_lt PosInfinity y = False"
| "num_lt (Finite x) PosInfinity = True"
| "num_lt (Finite x) (Finite y) = (x < y)"

text \<open>Strings compare code unit by code unit; a proper prefix is smaller.\<close>

fun str_lt :: "string \<Rightarrow> string \<Rightarrow> bool" where
  "str_lt [] [] = False"
| "str_lt [] (y # ys) = True"
| "str_lt (x # xs) [] = False"
| "str_lt (x # xs) (y # ys) =
     (if (of_char x :: nat) < of_char y then True
      else if (of_char y :: nat) < of_char x then False
      else str_lt xs ys)"

text \<open>The operator \<^verbatim>\<open>a < b\<close>; \<^verbatim>\<open>a > b\<close> is \<^verbatim>\<open>b < a\<close>.\<close>

definition js_lt :: "host \<Rightarrow> jsval \<Rightarrow> jsval \<Rightarrow> bool" where
  "js_lt H a b =
     (case (ToPrimitive H a, ToPrimitive H b) of
        (JStr s, JStr t) \<Rightarrow> str_lt s t
      | (pa, pb) \<Rightarrow> num_lt (ToNumber H pa) (ToNumber H pb))"

definition js_gt :: "host \<Rightarrow> jsval \<Rightarrow> jsval \<Rightarrow> bool" where
  "js_gt H a b = js_lt H b a"

section \<open>The comparator factory\<close>

text \<open>An object is read through its properties: \<open>a p\<close> is \<^verbatim>\<open>a[p]\<close>.\<close>

type_synonym object = "string \<Rightarrow> jsval"

definition postSorter :: "host \<Rightarrow> string \<Rightarrow> bool \<Rightarrow> object \<Rightarrow> object \<Rightarrow> int" where
  "postSorter H property reversed a b =
     (if reversed then
        (if js_lt H (a property) (b property) then 1
         else if js_gt H (a property) (b property) then - 1
         else 0)
      else
        (if js_gt H (a property) (b property) then 1
         else if js_lt H (a property) (b property) then - 1
         else 0))"

text \<open>
  \<^verbatim>\<open>Array.prototype.sort\<close> is a stable sort: an element moves behind another only when the
  comparator returns a positive number for the pair. Insertion from the right end keeps
  equal elements in their order. Where the comparator is not a consistent ordering of
  the elements the language leaves the order to the implementation; \<open>sort_by\<close> is then
  one implementation.
\<close>

fun insert_by :: "('a \<Rightarrow> 'a \<Rightarrow> int) \<Rightarrow> 'a \<Rightarrow> 'a list \<Rightarrow> 'a list" where
  "insert_by cmp x [] = [x]"
| "insert_by cmp x (y # ys) =
     (if cmp x y > 0 then y # insert_by cmp x ys else x # y # ys)"

definition sort_by :: "('a \<Rightarrow> 'a \<Rightarrow> int) \<Rightarrow> 'a list \<Rightarrow> 'a list" where
  "sort_by cmp xs = foldr (insert_by cmp) xs []"

section \<open>Errors, property reads and string helpers\<close>

definition and_then :: "error + 'a \<Rightarrow> ('a \<Rightarrow> error + 'b) \<Rightarrow> error + 'b" where
  "and_then r f = (case r of Inl e \<Rightarrow> Inl e | Inr v \<Rightarrow> f v)"

text \<open>
  \<^verbatim>\<open>data[key]\<close> for the keys the program reads (\<^verbatim>\<open>title\<close>, \<^verbatim>\<open>path\<close>, \<^verbatim>\<open>created\<close>,
  \<^verbatim>\<open>updated\<close>, \<^verbatim>\<open>author\<close>, \<^verbatim>\<open>tags\<close>, \<^verbatim>\<open>content\<close>, \<^verbatim>\<open>posts\<close>): reading a property of
  \<^verbatim>\<open>null\<close> or \<^verbatim>\<open>undefined\<close> throws, a parsed object gives the member or \<^verbatim>\<open>undefined\<close>,
  every other value has no such property. A parsed object lists each of its keys once.
\<close>

fun get_prop :: "jsval \<Rightarrow> string \<Rightarrow> error + jsval" where
  "get_prop JUndefined k = Inl TypeError"
| "get_prop JNull k = Inl TypeError"
| "get_prop (JObj kvs) k = Inr (case map_of kvs k of None \<Rightarrow> JUndefined | Some v \<Rightarrow> v)"
| "get_prop v k = Inr JUndefined"

fun split_on :: "char \<Rightarrow> string \<Rightarrow> string list" where
  "split_on c [] = [[]]"
| "split_on c (x # xs) =
     (if x = c then [] # split_on c xs
      else (case split_on c xs of [] \<Rightarrow> [[x]] | w # ws \<Rightarrow> (x # w) # ws))"

text \<open>\<^verbatim>\<open>v.split(',')\<close>: only a string has the method.\<close>

fun split_comma :: "jsval \<Rightarrow> error + string list" where
  "split_comma (JStr s) = Inr (split_on CHR '','' s)"
| "split_comma v = Inl TypeError"

text \<open>\<^verbatim>\<open>s.replace(pat, rep)\<close> with a string pattern replaces the first occurrence only.\<close>

fun replace_first :: "string \<Rightarrow> string \<Rightarrow> string \<Rightarrow> string" where
  "replace_first pat rep [] = (if pat = [] then rep else [])"
| "replace_first pat rep (c # cs) =
     (if take (length pat) (c # cs) = pat then rep @ drop (length pat) (c # cs)
      else c # replace_first pat rep cs)"

text \<open>\<^verbatim>\<open>s.replace(/\n/g, rep)\<close> replaces every line feed.\<close>

definition replace_newlines :: "string \<Rightarrow> string \<Rightarrow> string" where
  "replace_newlines rep s = concat (map (\<lambda>c. if c = CHR 0x0A then rep else [c]) s)"

text \<open>\<^verbatim>\<open>s.substr(0, n)\<close>: a negative length gives the empty string.\<close>

definition substr0 :: "string \<Rightarrow> int \<Rightarrow> string" where
  "substr0 s n = take (nat n) s"

fun lastIndexOf_from :: "nat \<Rightarrow> int \<Rightarrow> string \<Rightarrow> char \<Rightarrow> int" where
  "lastIndexOf_from i found [] c = found"
| "lastIndexOf_from i found (x # xs) c =
     lastIndexOf_from (Suc i) (if x = c then int i else found) xs c"

definition lastIndexOf :: "string \<Rightarrow> char \<Rightarrow> int" where
  "lastIndexOf s c = lastIndexOf_from 0 (- 1) s c"

section \<open>Post and Post Handle\<close>

record BlogPost =
  title :: jsval
  created :: jsnum
  updated :: jsnum
  author :: jsval
  tags :: "string list"
  content :: jsval

text \<open>A \<^verbatim>\<open>Date\<close> is kept as its time value, \<open>NaN\<close> for an invalid date.\<close>

definition BlogPost_new :: "host \<Rightarrow> jsval \<Rightarrow> error + BlogPost" where
  "BlogPost_new H data =
     and_then (get_prop data ''title'') (\<lambda>t.
     and_then (get_prop data ''created'') (\<lambda>c.
     and_then (get_prop data ''updated'') (\<lambda>u.
     and_then (get_prop data ''author'') (\<lambda>a.
     and_then (and_then (get_prop data ''tags'') split_comma) (\<lambda>ts.
     and_then (get_prop data ''content'') (\<lambda>body.
       Inr \<lparr>title = t, created = DateConstruct H c, updated = DateConstruct H u,
            author = a, tags = ts, content = body\<rparr>))))))"

record BlogPostMeta =
  meta_title :: jsval
  meta_id :: jsval
  meta_path :: string
  meta_created :: jsval
  meta_updated :: jsval
  meta_tags :: "string list"

definition BlogPostMeta_new :: "host \<Rightarrow> string \<Rightarrow> jsval \<Rightarrow> error + BlogPostMeta" where
  "BlogPostMeta_new H dir data =
     and_then (get_prop data ''title'') (\<lambda>t.
     and_then (get_prop data ''path'') (\<lambda>p.
     and_then (get_prop data ''created'') (\<lambda>c.
     and_then (get_prop data ''updated'') (\<lambda>u.
     and_then (and_then (get_prop data ''tags'') split_comma) (\<lambda>ts.
       Inr \<lparr>meta_title = t, meta_id = p, meta_path = dir @ ''/'' @ ToString H p,
            meta_created = c, meta_updated = u, meta_tags = ts\<rparr>)))))"

text \<open>The data properties of a handle, as \<^verbatim>\<open>a[property]\<close> reads them. The other names
  of a handle are its methods, which no comparator of the program reads.\<close>

definition meta_object :: "BlogPostMeta \<Rightarrow> object" where
  "meta_object m p =
     (if p = ''title'' then meta_title m
      else if p = ''id'' then meta_id m
      else if p = ''path'' then JStr (meta_path m)
      else if p = ''created'' then meta_created m
      else if p = ''updated'' then meta_updated m
      else if p = ''tags'' then JArr (map JStr (meta_tags m))
      else JUndefined)"

definition getJsonData :: "host \<Rightarrow> string \<Rightarrow> error + jsval" where
  "getJsonData H p = (case fetch H p of None \<Rightarrow> Inl FetchError | Some data \<Rightarrow> Inr data)"

definition getPost :: "host \<Rightarrow> BlogPostMeta \<Rightarrow> error + BlogPost" where
  "getPost H m = and_then (getJsonData H (meta_path m)) (BlogPost_new H)"

section \<open>Post Index\<close>

text \<open>
  The handle arrays live in a store, since the index and its callers hold the same array:
  \<^verbatim>\<open>getPosts\<close> returns the array \<^verbatim>\<open>this.posts\<close> itself, and \<^verbatim>\<open>sort\<close> sorts the array it is
  called on in place.
\<close>

type_synonym addr = nat

record heap =
  cells :: "addr \<Rightarrow> BlogPostMeta list"
  next_addr :: addr

definition empty_heap :: heap where
  "empty_heap = \<lparr>cells = (\<lambda>r. []), next_addr = 0\<rparr>"

text \<open>
  The field \<^verbatim>\<open>this.posts\<close> is not assigned at first, then holds the promise that the call
  of \<^verbatim>\<open>init\<close> in the constructor returned, and, once \<^verbatim>\<open>init\<close> has run to its end, the
  array of handles.
\<close>

datatype posts_field = Unassigned | Promise_pending | Array_ref addr

record BlogPostMetaList =
  directory :: string
  path :: string
  initialized :: bool
  posts :: posts_field

fun convert_entries :: "host \<Rightarrow> string \<Rightarrow> jsval list \<Rightarrow> error + BlogPostMeta list" where
  "convert_entries H dir [] = Inr []"
| "convert_entries H dir (post # rest) =
     (case BlogPostMeta_new H dir post of
        Inl e \<Rightarrow> Inl e
      | Inr m \<Rightarrow>
          (case convert_entries H dir rest of Inl e \<Rightarrow> Inl e | Inr ms \<Rightarrow> Inr (m # ms)))"

text \<open>\<^verbatim>\<open>data.forEach\<close>: only an array has the method.\<close>

fun convertToMetadataObject :: "host \<Rightarrow> string \<Rightarrow> jsval \<Rightarrow> error + BlogPostMeta list" where
  "convertToMetadataObject H dir (JArr entries) = convert_entries H dir entries"
| "convertToMetadataObject H dir v = Inl TypeError"

text \<open>
  An \<^verbatim>\<open>async\<close> function runs in the caller's turn up to its first \<^verbatim>\<open>await\<close>: \<open>init_sync\<close>
  is \<^verbatim>\<open>init\<close> up to \<^verbatim>\<open>await getJsonData(this.path)\<close>, \<open>init_resume\<close> is the rest, which runs
  when the document has arrived and whose result settles the promise.
\<close>

definition init_sync :: "BlogPostMetaList \<Rightarrow> BlogPostMetaList" where
  "init_sync this = this\<lparr>initialized := True\<rparr>"

definition init_resume ::
  "host \<Rightarrow> heap \<times> BlogPostMetaList \<Rightarrow> error + (addr \<times> heap \<times> BlogPostMetaList)" where
  "init_resume H s =
     (case s of (h, this) \<Rightarrow>
        and_then (getJsonData H (path this)) (\<lambda>data.
        and_then (get_prop data ''posts'') (\<lambda>entries.
        and_then (convertToMetadataObject H (directory this) entries) (\<lambda>ms.
          Inr (next_addr h,
               h\<lparr>cells := (cells h)(next_addr h := ms), next_addr := Suc (next_addr h)\<rparr>,
               this\<lparr>posts := Array_ref (next_addr h)\<rparr>)))))"

definition init ::
  "host \<Rightarrow> heap \<times> BlogPostMetaList \<Rightarrow> error + (addr \<times> heap \<times> BlogPostMetaList)" where
  "init H s = (case s of (h, this) \<Rightarrow> init_resume H (h, init_sync this))"

text \<open>The constructor: \<^verbatim>\<open>this.posts = this.init()\<close> starts \<^verbatim>\<open>init\<close> and stores its promise.\<close>

definition BlogPostMetaList_new :: "string \<Rightarrow> string \<Rightarrow> BlogPostMetaList" where
  "BlogPostMetaList_new file dir =
     (init_sync \<lparr>directory = dir, path = dir @ file, initialized = False,
                 posts = Unassigned\<rparr>)
       \<lparr>posts := Promise_pending\<rparr>"

text \<open>
  \<^verbatim>\<open>await index.getPosts()\<close>. Returning the pending promise makes the caller wait for the
  rest of \<^verbatim>\<open>init\<close>; the result \<open>None\<close> is \<^verbatim>\<open>undefined\<close>.
\<close>

definition getPosts ::
  "host \<Rightarrow> heap \<times> BlogPostMetaList \<Rightarrow> error + (addr option \<times> heap \<times> BlogPostMetaList)" where
  "getPosts H s =
     (case s of (h, this) \<Rightarrow>
        if \<not> initialized this then
          and_then (init H (h, this)) (\<lambda>(r, s'). Inr (Some r, s'))
        else
          (case posts this of
             Unassigned \<Rightarrow> Inr (None, h, this)
           | Promise_pending \<Rightarrow> and_then (init_resume H (h, this)) (\<lambda>(r, s'). Inr (Some r, s'))
           | Array_ref r \<Rightarrow> Inr (Some r, h, this)))"

text \<open>\<^verbatim>\<open>arr.sort(cmp)\<close>: sorts the array at \<open>r\<close> in place and returns \<open>r\<close>.\<close>

definition array_sort :: "(BlogPostMeta \<Rightarrow> BlogPostMeta \<Rightarrow> int) \<Rightarrow> addr \<Rightarrow> heap \<Rightarrow> heap" where
  "array_sort cmp r h = h\<lparr>cells := (cells h)(r := sort_by cmp (cells h r))\<rparr>"

definition getPostsSorted ::
  "host \<Rightarrow> string \<Rightarrow> bool \<Rightarrow> heap \<times> BlogPostMetaList
     \<Rightarrow> error + (addr \<times> heap \<times> BlogPostMetaList)" where
  "getPostsSorted H attr reverse s =
     and_then (getPosts H s) (\<lambda>(res, h, this).
       case res of
         None \<Rightarrow> Inl TypeError
       | Some r \<Rightarrow>
           Inr (r,
                array_sort (\<lambda>a b. postSorter H ''created'' reverse (meta_object a) (meta_object b))
                  r h,
                this))"

definition getPostsMostRecent ::
  "host \<Rightarrow> heap \<times> BlogPostMetaList \<Rightarrow> error + (addr \<times> heap \<times> BlogPostMetaList)" where
  "getPostsMostRecent H s = getPostsSorted H ''created'' False s"

section \<open>HTML renderers\<close>

definition getTitleHtml :: "host \<Rightarrow> BlogPost \<Rightarrow> string" where
  "getTitleHtml H post = ''<h3>'' @ ToString H (title post) @ ''</h3>''"

text \<open>\<^verbatim>\<open>x !== y\<close> on two numbers: \<open>NaN\<close> differs from every number, itself included.\<close>

fun num_strict_neq :: "jsnum \<Rightarrow> jsnum \<Rightarrow> bool" where
  "num_strict_neq NaN y = True"
| "num_strict_neq x NaN = True"
| "num_strict_neq x y = (x \<noteq> y)"

definition createdParagraph :: "host \<Rightarrow> BlogPost \<Rightarrow> string" where
  "createdParagraph H post =
     ''<p class=\"timestamp\">Written by '' @ ToString H (author post) @ '' on '' @
       toLocaleString H (created post) @ ''</p>''"

definition updatedParagraph :: "host \<Rightarrow> BlogPost \<Rightarrow> string" where
  "updatedParagraph H post =
     ''<p class=\"timestamp\">Updated on '' @ toLocaleString H (updated post) @ ''</p>''"

definition getTimestampHtml :: "host \<Rightarrow> BlogPost \<Rightarrow> string" where
  "getTimestampHtml H post =
     (let updated0 = [];
          created1 = createdParagraph H post;
          updated1 = (if num_strict_neq (created post) (updated post)
                      then updatedParagraph H post else updated0)
      in created1 @ updated1)"

text \<open>\<^verbatim>\<open>content.replace\<close>: only a string has the method.\<close>

fun getBodyHtml :: "BlogPost \<Rightarrow> error + string" where
  "getBodyHtml post =
     (case content post of
        JStr s \<Rightarrow> Inr (''<p>'' @ replace_newlines ''</p><p>'' s @ ''</p>'')
      | _ \<Rightarrow> Inl TypeError)"

definition getPostHtml :: "host \<Rightarrow> BlogPostMeta \<Rightarrow> bool \<Rightarrow> error + string" where
  "getPostHtml H postMeta contentOnly =
     and_then (getPost H postMeta) (\<lambda>post.
     and_then (getBodyHtml post) (\<lambda>body.
       if contentOnly then Inr (getTitleHtml H post @ getTimestampHtml H post @ body)
       else Inr (''<article>'' @ getTitleHtml H post @ getTimestampHtml H post @ body @
                 ''</article>'')))"

section \<open>Page assembly\<close>

text \<open>The page: the content of each element, by element id.\<close>

type_synonym page = "string \<Rightarrow> string option"

text \<open>\<^verbatim>\<open>document.getElementById(domId).innerHTML = s\<close>; no such element gives \<^verbatim>\<open>null\<close>.\<close>

definition set_innerHTML :: "page \<Rightarrow> string \<Rightarrow> string \<Rightarrow> error + page" where
  "set_innerHTML doc domId s =
     (case doc domId of None \<Rightarrow> Inl TypeError | Some old \<Rightarrow> Inr (doc(domId \<mapsto> s)))"

text \<open>
  \<^verbatim>\<open>getPostFromUrl\<close> is an \<^verbatim>\<open>async\<close> function: a call gives a promise of the string it
  returns. The variable \<^verbatim>\<open>content\<close> of \<^verbatim>\<open>getBlogPosts\<close> holds that promise or a string;
  \<open>content_string\<close> is its conversion to a string, in \<^verbatim>\<open>+=\<close> and in the assignment to
  \<^verbatim>\<open>innerHTML\<close>.
\<close>

definition getPostFromUrl :: string where
  "getPostFromUrl = []"

datatype content_value = Promise_of string | Text string

fun content_string :: "content_value \<Rightarrow> string" where
  "content_string (Promise_of v) = ''[object Promise]''"
| "content_string (Text s) = s"

definition append_html :: "content_value \<Rightarrow> string \<Rightarrow> content_value" where
  "append_html c s = Text (content_string c @ s)"

fun render_posts :: "host \<Rightarrow> content_value \<Rightarrow> BlogPostMeta list \<Rightarrow> error + content_value" where
  "render_posts H c [] = Inr c"
| "render_posts H c (postMeta # rest) =
     (case getPostHtml H postMeta False of
        Inl e \<Rightarrow> Inl e
      | Inr html \<Rightarrow> render_posts H (append_html c html) rest)"

definition getBlogPosts ::
  "host \<Rightarrow> page \<Rightarrow> string \<Rightarrow> string \<Rightarrow> string \<Rightarrow> int \<Rightarrow> string \<Rightarrow> bool \<Rightarrow> error + page" where
  "getBlogPosts H doc domId dir file maxPosts sortBy reverse =
     (let content0 = Promise_of getPostFromUrl in
      and_then (getPostsSorted H sortBy reverse (empty_heap, BlogPostMetaList_new file dir))
        (\<lambda>(postList, h, this).
      and_then (render_posts H content0 (cells h postList)) (\<lambda>content1.
        set_innerHTML doc domId (content_string content1))))"

text \<open>Lines 274 to 278 of \<^verbatim>\<open>latestBlogPost\<close>: the cut at \<^verbatim>\<open>maxChars\<close>.\<close>

definition cut_content :: "string \<Rightarrow> int \<Rightarrow> string" where
  "cut_content content0 maxChars =
     (let content1 = substr0 content0 maxChars in
      if int (length content1) = maxChars then
        substr0 content1 (min (int (length content1)) (lastIndexOf content1 CHR '' ''))
      else content1)"

definition readMoreLink :: "string \<Rightarrow> string" where
  "readMoreLink i =
     ''<a href=\"blog.html?id='' @ [CHR 0x27] @ i @ [CHR 0x27] @ ''\"><i>Read More</i></a>''"

text \<open>\<^verbatim>\<open>getId().replace('.json', '')\<close>: only a string has the method.\<close>

fun id_without_json :: "jsval \<Rightarrow> error + string" where
  "id_without_json (JStr s) = Inr (replace_first ''.json'' [] s)"
| "id_without_json v = Inl TypeError"

definition latestBlogPost ::
  "host \<Rightarrow> page \<Rightarrow> string \<Rightarrow> string \<Rightarrow> string \<Rightarrow> int \<Rightarrow> bool \<Rightarrow> error + page" where
  "latestBlogPost H doc domId dir file maxChars contentOnly =
     and_then (getPostsSorted H ''created'' True (empty_heap, BlogPostMetaList_new file dir))
       (\<lambda>(postList, h, this).
          case cells h postList of
            [] \<Rightarrow> Inl TypeError
          | first # rest \<Rightarrow>
              and_then (getPostHtml H first contentOnly) (\<lambda>html.
                if maxChars \<ge> 0 then
                  and_then (id_without_json (meta_id first)) (\<lambda>i.
                    set_innerHTML doc domId (cut_content html maxChars @ readMoreLink i))
                else set_innerHTML doc domId html))"

section \<open>Equality of posts\<close>

text \<open>
  \<^verbatim>\<open>x === y\<close>. Arrays and objects are equal only as the same object; two values that
  reach \<^verbatim>\<open>equals\<close> from different sides are different objects.
\<close>

fun strict_eq :: "jsval \<Rightarrow> jsval \<Rightarrow> bool" where
  "strict_eq JUndefined JUndefined = True"
| "strict_eq JNull JNull = True"
| "strict_eq (JBool a) (JBool b) = (a = b)"
| "strict_eq (JNum x) (JNum y) = (\<not> num_strict_neq x y)"
| "strict_eq (JStr s) (JStr t) = (s = t)"
| "strict_eq v w = False"

text \<open>\<^verbatim>\<open>JSON.stringify\<close> of an array of strings.\<close>

definition hex_digit :: "nat \<Rightarrow> char" where
  "hex_digit n = ''0123456789abcdef'' ! (n mod 16)"

definition quote_char :: "char \<Rightarrow> string" where
  "quote_char c =
     (let n = (of_char c :: nat) in
      if n = 8 then [CHR 0x5C, CHR ''b'']
      else if n = 9 then [CHR 0x5C, CHR ''t'']
      else if n = 10 then [CHR 0x5C, CHR ''n'']
      else if n = 12 then [CHR 0x5C, CHR ''f'']
      else if n = 13 then [CHR 0x5C, CHR ''r'']
      else if n = 34 then [CHR 0x5C, CHR 0x22]
      else if n = 92 then [CHR 0x5C, CHR 0x5C]
      else if n < 32 then
        [CHR 0x5C, CHR ''u'', CHR ''0'', CHR ''0'', hex_digit (n div 16), hex_digit n]
      else [c])"

definition JSON_stringify :: "string list \<Rightarrow> string" where
  "JSON_stringify ts =
     ''['' @ join '','' (map (\<lambda>t. [CHR 0x22] @ concat (map quote_char t) @ [CHR 0x22]) ts) @ '']''"

text \<open>
  The argument of \<^verbatim>\<open>equals\<close> is any value. What \<^verbatim>\<open>equals\<close> sees of it is what its six
  accessor calls do: the method may be missing (\<open>None\<close>), throw, or return a value; on the
  value of \<^verbatim>\<open>getCreated\<close> and \<^verbatim>\<open>getUpdated\<close> the call of \<^verbatim>\<open>valueOf\<close>, and on the value of
  \<^verbatim>\<open>getTags\<close> the call of \<^verbatim>\<open>JSON.stringify\<close>, may in turn throw or return. A number, a
  string or a boolean has none of the methods; \<^verbatim>\<open>null\<close> and \<^verbatim>\<open>undefined\<close> have no
  properties at all.
\<close>

datatype 'a call = Throws | Returns 'a

record accessors =
  getTitle :: "jsval call option"
  getCreated :: "jsval call call option"
  getUpdated :: "jsval call call option"
  getAuthor :: "jsval call option"
  getTags :: "jsval call call option"
  getContent :: "jsval call option"

datatype other = Nullish | Obj accessors

fun outcome :: "'a call \<Rightarrow> error + 'a" where
  "outcome Throws = Inl Thrown"
| "outcome (Returns v) = Inr v"

fun invoke :: "other \<Rightarrow> (accessors \<Rightarrow> 'a call option) \<Rightarrow> error + 'a" where
  "invoke Nullish m = Inl TypeError"
| "invoke (Obj acc) m = (case m acc of None \<Rightarrow> Inl TypeError | Some c \<Rightarrow> outcome c)"

text \<open>The body of the \<^verbatim>\<open>try\<close> block: \<^verbatim>\<open>&&\<close> stops at the first false comparison.\<close>

definition equals_try :: "BlogPost \<Rightarrow> other \<Rightarrow> error + bool" where
  "equals_try this obj =
     and_then (invoke obj getTitle) (\<lambda>t.
       if \<not> strict_eq (title this) t then Inr False else
     and_then (and_then (invoke obj getCreated) outcome) (\<lambda>c.
       if \<not> strict_eq (JNum (created this)) c then Inr False else
     and_then (and_then (invoke obj getUpdated) outcome) (\<lambda>u.
       if \<not> strict_eq (JNum (updated this)) u then Inr False else
     and_then (invoke obj getAuthor) (\<lambda>a.
       if \<not> strict_eq (author this) a then Inr False else
     and_then (and_then (invoke obj getTags) outcome) (\<lambda>j.
       if \<not> strict_eq (JStr (JSON_stringify (tags this))) j then Inr False else
     and_then (invoke obj getContent) (\<lambda>body.
       Inr (strict_eq (content this) body)))))))"

definition equals :: "BlogPost \<Rightarrow> other \<Rightarrow> error + bool" where
  "equals this obj = (case equals_try this obj of Inl e \<Rightarrow> Inr False | Inr b \<Rightarrow> Inr b)"

text \<open>A constructed post, seen as the argument of \<^verbatim>\<open>equals\<close>.\<close>

definition post_object :: "BlogPost \<Rightarrow> other" where
  "post_object p =
     Obj \<lparr>getTitle = Some (Returns (title p)),
          getCreated = Some (Returns (Returns (JNum (created p)))),
          getUpdated = Some (Returns (Returns (JNum (updated p)))),
          getAuthor = Some (Returns (author p)),
          getTags = Some (Returns (Returns (JStr (JSON_stringify (tags p))))),
          getContent = Some (Returns (content p))\<rparr>"

text \<open>
  A malformed or incompatible argument: a value with no properties at all, or one on
  which one of the six accessor calls is not possible or throws.
\<close>

fun unusable :: "'a call option \<Rightarrow> bool" where
  "unusable None = True"
| "unusable (Some Throws) = True"
| "unusable (Some (Returns v)) = False"

fun unusable2 :: "'a call call option \<Rightarrow> bool" where
  "unusable2 (Some (Returns (Returns v))) = False"
| "unusable2 m = True"

fun malformed :: "other \<Rightarrow> bool" where
  "malformed Nullish = True"
| "malformed (Obj acc) =
     (unusable (getTitle acc) \<or> unusable2 (getCreated acc) \<or> unusable2 (getUpdated acc) \<or>
      unusable (getAuthor acc) \<or> unusable2 (getTags acc) \<or> unusable (getContent acc))"

text \<open>A number, a string or a boolean: a value with none of the methods.\<close>

definition no_accessors :: accessors where
  "no_accessors =
     \<lparr>getTitle = None, getCreated = None, getUpdated = None, getAuthor = None,
      getTags = None, getContent = None\<rparr>"

section \<open>A sample site\<close>

text \<open>
  A host for the concrete runs below, after the sample data of \<^verbatim>\<open>tests()\<close>: an index
  \<^verbatim>\<open>sample/testdir.json\<close> of three posts that is not in date order, and an index
  \<^verbatim>\<open>sample/howto.json\<close> of one post. Dates are read and printed in UTC.
\<close>

definition sample_entry :: "string \<Rightarrow> string \<Rightarrow> string \<Rightarrow> string \<Rightarrow> jsval" where
  "sample_entry t p c u =
     JObj [(''title'', JStr t), (''path'', JStr p), (''created'', JStr c),
           (''updated'', JStr u), (''tags'', JStr ''x,y'')]"

definition sample_post :: "string \<Rightarrow> string \<Rightarrow> string \<Rightarrow> string \<Rightarrow> jsval" where
  "sample_post t c u body =
     JObj [(''title'', JStr t), (''created'', JStr c), (''updated'', JStr u),
           (''author'', JStr ''Au''), (''tags'', JStr ''x,y''), (''content'', JStr body)]"

definition sample_files :: "(string \<times> jsval) list" where
  "sample_files =
     [(''sample/testdir.json'',
         JObj [(''posts'', JArr [sample_entry ''T0'' ''post0.json'' ''2022-01-20'' ''2022-01-21'',
                                 sample_entry ''T2'' ''post2.json'' ''2022-01-22'' ''2022-01-22'',
                                 sample_entry ''T1'' ''post1.json'' ''2022-01-21'' ''2022-01-22''])]),
      (''sample//post0.json'', sample_post ''T0'' ''2022-01-20'' ''2022-01-21'' ''content0''),
      (''sample//post1.json'', sample_post ''T1'' ''2022-01-21'' ''2022-01-22'' ''content1''),
      (''sample//post2.json'', sample_post ''T2'' ''2022-01-22'' ''2022-01-22'' ''content2''),
      (''sample/howto.json'',
         JObj [(''posts'', JArr [sample_entry ''Guide'' ''package.json-explained.json''
                                   ''2022-01-20'' ''2022-01-20''])]),
      (''sample//package.json-explained.json'',
         sample_post ''Guide'' ''2022-01-20'' ''2022-01-20'' ''Every field explained''),
      (''sample/empty.json'', JObj [(''posts'', JArr [])])]"

definition sample_dates :: "(string \<times> rat \<times> string) list" where
  "sample_dates =
     [(''2022-01-20'', 1642636800000, ''January 20, 2022''),
      (''2022-01-21'', 1642723200000, ''January 21, 2022''),
      (''2022-01-22'', 1642809600000, ''January 22, 2022'')]"

definition sample_host :: host where
  "sample_host =
     \<lparr>StringToNumber = (\<lambda>s. NaN),
      NumberToString = (\<lambda>n. ''NaN''),
      DateConstruct = (\<lambda>v. case v of
          JStr s \<Rightarrow> (case map_of sample_dates s of None \<Rightarrow> NaN | Some (t, text) \<Rightarrow> Finite t)
        | _ \<Rightarrow> NaN),
      toLocaleString = (\<lambda>n. case n of
          Finite t \<Rightarrow> (case map_of (map snd sample_dates) t of
                         None \<Rightarrow> ''Invalid Date'' | Some text \<Rightarrow> text)
        | _ \<Rightarrow> ''Invalid Date''),
      fetch = map_of sample_files\<rparr>"

definition sample_page :: page where
  "sample_page = [''blog'' \<mapsto> ''old content'']"

text \<open>The handles of \<^verbatim>\<open>sample/testdir.json\<close>, in the order of the document, and the index
  once \<^verbatim>\<open>init\<close> has stored them.\<close>

definition sample_handle :: "string \<Rightarrow> string \<Rightarrow> string \<Rightarrow> string \<Rightarrow> BlogPostMeta" where
  "sample_handle t p c u =
     \<lparr>meta_title = JStr t, meta_id = JStr p, meta_path = ''sample//'' @ p,
      meta_created = JStr c, meta_updated = JStr u, meta_tags = [''x'', ''y'']\<rparr>"

definition sample_handles :: "BlogPostMeta list" where
  "sample_handles =
     [sample_handle ''T0'' ''post0.json'' ''2022-01-20'' ''2022-01-21'',
      sample_handle ''T2'' ''post2.json'' ''2022-01-22'' ''2022-01-22'',
      sample_handle ''T1'' ''post1.json'' ''2022-01-21'' ''2022-01-22'']"

definition sample_heap :: heap where
  "sample_heap = \<lparr>cells = (\<lambda>r. [])(0 := sample_handles), next_addr = 1\<rparr>"

definition sample_ready :: BlogPostMetaList where
  "sample_ready =
     \<lparr>directory = ''sample/'', path = ''sample/testdir.json'', initialized = True,
      posts = Array_ref 0\<rparr>"

definition sample_blogpost :: "jsnum \<Rightarrow> jsnum \<Rightarrow> BlogPost" where
  "sample_blogpost c u =
     \<lparr>title = JStr ''T0'', created = c, updated = u, author = JStr ''Au'',
      tags = [''x'', ''y''], content = JStr ''content0''\<rparr>"

text \<open>The handle and the rendered text of the one post of \<^verbatim>\<open>sample/howto.json\<close>.\<close>

definition sample_guide_handle :: BlogPostMeta where
  "sample_guide_handle =
     sample_handle ''Guide'' ''package.json-explained.json'' ''2022-01-20'' ''2022-01-20''"

definition sample_guide_html :: string where
  "sample_guide_html =
     ''<article><h3>Guide</h3><p class=\"timestamp\">Written by Au on January 20, 2022</p><p>Every field explained</p></article>''"

text \<open>The specification's words for the link: the id with the \<^verbatim>\<open>.json\<close> suffix stripped.\<close>

definition spec_strip_json_suffix :: "string \<Rightarrow> string" where
  "spec_strip_json_suffix s =
     (if 5 \<le> length s \<and> drop (length s - 5) s = ''.json'' then take (length s - 5) s else s)"

text \<open>An object with the accessors of the sample post, but no \<^verbatim>\<open>getContent\<close>.\<close>

definition sample_without_getContent :: other where
  "sample_without_getContent =
     Obj \<lparr>getTitle = Some (Returns (JStr ''T0'')),
          getCreated = Some (Returns (Returns (JNum (Finite 1642636800000)))),
          getUpdated = Some (Returns (Returns (JNum (Finite 1642723200000)))),
          getAuthor = Some (Returns (JStr ''Au'')),
          getTags = Some (Returns (Returns (JStr (JSON_stringify [''x'', ''y''])))),
          getContent = None\<rparr>"

section \<open>The comparator\<close>

lemma num_lt_asym: "num_lt x y \<Longrightarrow> \<not> num_lt y x"
  by (cases x; cases y) auto

lemma str_lt_asym: "str_lt s t \<Longrightarrow> \<not> str_lt t s"
  by (induction s t rule: str_lt.induct) (auto split: if_splits)

lemma js_lt_asym: "js_lt H x y \<Longrightarrow> \<not> js_lt H y x"
  unfolding js_lt_def
  by (cases "ToPrimitive H x"; cases "ToPrimitive H y") (auto dest: num_lt_asym str_lt_asym)

lemma js_lt_strings: "js_lt H (JStr s) (JStr t) = str_lt s t"
  by (simp add: js_lt_def)










lemma insert_by_tie:
  assumes "\<And>y. cmp x y \<le> 0"
  shows "insert_by cmp x ys = x # ys"
proof (cases ys)
  case Nil
  then show ?thesis by simp
next
  case (Cons a list)
  from assms [of a] have "\<not> 0 < cmp x a" by simp
  with Cons show ?thesis by simp
qed

lemma sort_by_all_ties: "(\<And>x y. cmp x y \<le> 0) \<Longrightarrow> sort_by cmp xs = xs"
  by (induction xs) (auto simp: sort_by_def insert_by_tie)

lemma sample_sorted_asc:
  "sort_by (\<lambda>a b. postSorter H ''created'' False (meta_object a) (meta_object b)) sample_handles =
     [sample_handle ''T0'' ''post0.json'' ''2022-01-20'' ''2022-01-21'',
      sample_handle ''T1'' ''post1.json'' ''2022-01-21'' ''2022-01-22'',
      sample_handle ''T2'' ''post2.json'' ''2022-01-22'' ''2022-01-22'']"
  by (simp add: sort_by_def postSorter_def js_gt_def js_lt_strings meta_object_def
      sample_handle_def sample_handles_def)

lemma sample_sorted_desc:
  "sort_by (\<lambda>a b. postSorter H ''created'' True (meta_object a) (meta_object b)) sample_handles =
     [sample_handle ''T2'' ''post2.json'' ''2022-01-22'' ''2022-01-22'',
      sample_handle ''T1'' ''post1.json'' ''2022-01-21'' ''2022-01-22'',
      sample_handle ''T0'' ''post0.json'' ''2022-01-20'' ''2022-01-21'']"
  by (simp add: sort_by_def postSorter_def js_gt_def js_lt_strings meta_object_def
      sample_handle_def sample_handles_def)

text \<open>
  Claim C9. The comparator of \<^verbatim>\<open>postSorter\<close> orders ascending when \<^verbatim>\<open>reversed\<close> is false:
  it returns \<open>-1\<close> exactly when \<^verbatim>\<open>a[p] < b[p]\<close> and \<open>1\<close> exactly when \<^verbatim>\<open>a[p] > b[p]\<close>; it
  orders descending when \<^verbatim>\<open>reversed\<close> is true; in both directions it returns \<open>0\<close> exactly
  on a tie, when neither value is smaller. Three handles created on 2022-01-20,
  2022-01-22 and 2022-01-21 are sorted by the stable sort into 20, 21, 22 with
  \<^verbatim>\<open>reversed = false\<close> and into 22, 21, 20 with \<^verbatim>\<open>reversed = true\<close>.
\<close>

theorem postSorter_ordering:
  "(postSorter H p False a b = - 1 \<longleftrightarrow> js_lt H (a p) (b p)) \<and>
   (postSorter H p False a b = 1 \<longleftrightarrow> js_gt H (a p) (b p)) \<and>
   (postSorter H p False a b = 0 \<longleftrightarrow> \<not> js_lt H (a p) (b p) \<and> \<not> js_gt H (a p) (b p)) \<and>
   (postSorter H p True a b = - 1 \<longleftrightarrow> js_gt H (a p) (b p)) \<and>
   (postSorter H p True a b = 1 \<longleftrightarrow> js_lt H (a p) (b p)) \<and>
   (postSorter H p True a b = 0 \<longleftrightarrow> \<not> js_lt H (a p) (b p) \<and> \<not> js_gt H (a p) (b p)) \<and>
   map meta_created
     (sort_by (\<lambda>x y. postSorter H ''created'' False (meta_object x) (meta_object y))
        [sample_handle ''T0'' ''post0.json'' ''2022-01-20'' ''2022-01-21'',
         sample_handle ''T2'' ''post2.json'' ''2022-01-22'' ''2022-01-22'',
         sample_handle ''T1'' ''post1.json'' ''2022-01-21'' ''2022-01-22'']) =
     [JStr ''2022-01-20'', JStr ''2022-01-21'', JStr ''2022-01-22''] \<and>
   map meta_created
     (sort_by (\<lambda>x y. postSorter H ''created'' True (meta_object x) (meta_object y))
        [sample_handle ''T0'' ''post0.json'' ''2022-01-20'' ''2022-01-21'',
         sample_handle ''T2'' ''post2.json'' ''2022-01-22'' ''2022-01-22'',
         sample_handle ''T1'' ''post1.json'' ''2022-01-21'' ''2022-01-22'']) =
     [JStr ''2022-01-22'', JStr ''2022-01-21'', JStr ''2022-01-20'']"
proof -
  have cmp:
    "(postSorter H p False a b = - 1 \<longleftrightarrow> js_lt H (a p) (b p)) \<and>
     (postSorter H p False a b = 1 \<longleftrightarrow> js_gt H (a p) (b p)) \<and>
     (postSorter H p False a b = 0 \<longleftrightarrow> \<not> js_lt H (a p) (b p) \<and> \<not> js_gt H (a p) (b p)) \<and>
     (postSorter H p True a b = - 1 \<longleftrightarrow> js_gt H (a p) (b p)) \<and>
     (postSorter H p True a b = 1 \<longleftrightarrow> js_lt H (a p) (b p)) \<and>
     (postSorter H p True a b = 0 \<longleftrightarrow> \<not> js_lt H (a p) (b p) \<and> \<not> js_gt H (a p) (b p))"
    using js_lt_asym [of H "a p" "b p"] js_lt_asym [of H "b p" "a p"]
    by (auto simp add: postSorter_def js_gt_def)
  have asc: "map meta_created
     (sort_by (\<lambda>x y. postSorter H ''created'' False (meta_object x) (meta_object y))
        [sample_handle ''T0'' ''post0.json'' ''2022-01-20'' ''2022-01-21'',
         sample_handle ''T2'' ''post2.json'' ''2022-01-22'' ''2022-01-22'',
         sample_handle ''T1'' ''post1.json'' ''2022-01-21'' ''2022-01-22'']) =
     [JStr ''2022-01-20'', JStr ''2022-01-21'', JStr ''2022-01-22'']"
    using sample_sorted_asc [of H] by (simp add: sample_handles_def sample_handle_def)
  have desc: "map meta_created
     (sort_by (\<lambda>x y. postSorter H ''created'' True (meta_object x) (meta_object y))
        [sample_handle ''T0'' ''post0.json'' ''2022-01-20'' ''2022-01-21'',
         sample_handle ''T2'' ''post2.json'' ''2022-01-22'' ''2022-01-22'',
         sample_handle ''T1'' ''post1.json'' ''2022-01-21'' ''2022-01-22'']) =
     [JStr ''2022-01-22'', JStr ''2022-01-21'', JStr ''2022-01-20'']"
    using sample_sorted_desc [of H] by (simp add: sample_handles_def sample_handle_def)
  from cmp asc desc show ?thesis by blast
qed

text \<open>
  Claim C10. For every property name and all objects \<open>a\<close> and \<open>b\<close>, the reversed comparator
  applied to \<open>(a, b)\<close> returns what the comparator that is not reversed returns on
  \<open>(b, a)\<close>.
\<close>

theorem postSorter_reversed_is_swapped:
  "postSorter H p True a b = postSorter H p False b a"
  by (simp add: postSorter_def js_gt_def)

section \<open>The index\<close>

lemma sample_fetch_index:
  "fetch sample_host ''sample/testdir.json'' =
     Some (JObj [(''posts'', JArr [sample_entry ''T0'' ''post0.json'' ''2022-01-20'' ''2022-01-21'',
                                 sample_entry ''T2'' ''post2.json'' ''2022-01-22'' ''2022-01-22'',
                                 sample_entry ''T1'' ''post1.json'' ''2022-01-21'' ''2022-01-22''])])"
  by (simp add: sample_host_def sample_files_def)

lemma sample_entry_handle:
  "BlogPostMeta_new H ''sample/'' (sample_entry t p c u) = Inr (sample_handle t p c u)"
  by (simp add: BlogPostMeta_new_def sample_entry_def sample_handle_def and_then_def)

lemma sample_getPosts:
  "getPosts sample_host (empty_heap, BlogPostMetaList_new ''testdir.json'' ''sample/'') =
     Inr (Some 0, sample_heap, sample_ready)"
  by (simp add: getPosts_def BlogPostMetaList_new_def init_sync_def init_resume_def
      getJsonData_def sample_fetch_index and_then_def sample_entry_handle empty_heap_def
      sample_heap_def sample_ready_def sample_handles_def)

lemma getPostsSorted_after_getPosts:
  "getPosts H s = Inr (Some r, h, this) \<Longrightarrow>
   getPostsSorted H attr reverse s =
     Inr (r, array_sort (\<lambda>a b. postSorter H ''created'' reverse (meta_object a) (meta_object b)) r h,
          this)"
  by (simp add: getPostsSorted_def and_then_def)

lemma cells_array_sort: "cells (array_sort cmp r h) r = sort_by cmp (cells h r)"
  by (simp add: array_sort_def)

text \<open>
  Claim C1. For every field name \<open>attr\<close> and every \<open>reverse\<close> flag, \<^verbatim>\<open>getPostsSorted\<close> gives
  the same result as for any other field name, and when \<^verbatim>\<open>getPosts\<close> yields the array
  \<open>r\<close>, the result is that array sorted with the comparator of \<^verbatim>\<open>postSorter\<close> bound to
  the field \<^verbatim>\<open>created\<close> and to \<open>reverse\<close>: \<open>attr\<close> never reaches the ordering.
\<close>

theorem getPostsSorted_always_by_created:
  "getPostsSorted H attr reverse s = getPostsSorted H attr' reverse s \<and>
   (getPosts H s = Inr (Some r, h, this) \<longrightarrow>
      getPostsSorted H attr reverse s =
        Inr (r, array_sort (\<lambda>a b. postSorter H ''created'' reverse (meta_object a) (meta_object b)) r h,
             this) \<and>
      cells (array_sort (\<lambda>a b. postSorter H ''created'' reverse (meta_object a) (meta_object b)) r h) r =
        sort_by (\<lambda>a b. postSorter H ''created'' reverse (meta_object a) (meta_object b)) (cells h r))"
proof (intro conjI impI)
  show "getPostsSorted H attr reverse s = getPostsSorted H attr' reverse s"
    by (simp add: getPostsSorted_def)
next
  assume "getPosts H s = Inr (Some r, h, this)"
  then show "getPostsSorted H attr reverse s =
        Inr (r, array_sort (\<lambda>a b. postSorter H ''created'' reverse (meta_object a) (meta_object b)) r h,
             this)"
    by (rule getPostsSorted_after_getPosts)
next
  show "cells (array_sort (\<lambda>a b. postSorter H ''created'' reverse (meta_object a) (meta_object b)) r h) r =
        sort_by (\<lambda>a b. postSorter H ''created'' reverse (meta_object a) (meta_object b)) (cells h r)"
    by (rule cells_array_sort)
qed

theorem getPostsSorted_always_by_created_witness:
  "getPosts sample_host (empty_heap, BlogPostMetaList_new ''testdir.json'' ''sample/'') =
     Inr (Some 0, sample_heap, sample_ready) \<and>
   getPostsSorted sample_host ''title'' True
       (empty_heap, BlogPostMetaList_new ''testdir.json'' ''sample/'') =
     getPostsSorted sample_host ''updated'' True
       (empty_heap, BlogPostMetaList_new ''testdir.json'' ''sample/'') \<and>
   cells (array_sort (\<lambda>a b. postSorter sample_host ''created'' True (meta_object a) (meta_object b))
            0 sample_heap) 0 =
     [sample_handle ''T2'' ''post2.json'' ''2022-01-22'' ''2022-01-22'',
      sample_handle ''T1'' ''post1.json'' ''2022-01-21'' ''2022-01-22'',
      sample_handle ''T0'' ''post0.json'' ''2022-01-20'' ''2022-01-21'']"
  using getPostsSorted_always_by_created [of sample_host "''title''" True
      "(empty_heap, BlogPostMetaList_new ''testdir.json'' ''sample/'')" "''updated''" 0
      sample_heap sample_ready]
    sample_getPosts sample_sorted_desc [of sample_host]
  by (simp add: sample_heap_def)

text \<open>
  Claim C6. For every index, \<^verbatim>\<open>getPostsMostRecent()\<close> returns what
  \<^verbatim>\<open>getPostsSorted("created", false)\<close> returns: when \<^verbatim>\<open>getPosts\<close> yields the array \<open>r\<close>, that
  array sorted by \<^verbatim>\<open>created\<close> with \<^verbatim>\<open>reversed = false\<close>, the oldest first.
\<close>

theorem getPostsMostRecent_is_ascending_sort:
  "getPostsMostRecent H s = getPostsSorted H ''created'' False s \<and>
   (getPosts H s = Inr (Some r, h, this) \<longrightarrow>
      getPostsMostRecent H s =
        Inr (r, array_sort (\<lambda>a b. postSorter H ''created'' False (meta_object a) (meta_object b)) r h,
             this))"
  by (simp add: getPostsMostRecent_def getPostsSorted_after_getPosts)

theorem getPostsMostRecent_is_ascending_sort_witness:
  "getPosts sample_host (empty_heap, BlogPostMetaList_new ''testdir.json'' ''sample/'') =
     Inr (Some 0, sample_heap, sample_ready) \<and>
   getPostsMostRecent sample_host (empty_heap, BlogPostMetaList_new ''testdir.json'' ''sample/'') =
     Inr (0,
          \<lparr>cells = (\<lambda>r. [])(0 :=
              [sample_handle ''T0'' ''post0.json'' ''2022-01-20'' ''2022-01-21'',
               sample_handle ''T1'' ''post1.json'' ''2022-01-21'' ''2022-01-22'',
               sample_handle ''T2'' ''post2.json'' ''2022-01-22'' ''2022-01-22'']),
           next_addr = 1\<rparr>,
          sample_ready)"
proof -
  have sorted: "array_sort
        (\<lambda>a b. postSorter sample_host ''created'' False (meta_object a) (meta_object b)) 0
        sample_heap =
      \<lparr>cells = (\<lambda>r. [])(0 :=
          [sample_handle ''T0'' ''post0.json'' ''2022-01-20'' ''2022-01-21'',
           sample_handle ''T1'' ''post1.json'' ''2022-01-21'' ''2022-01-22'',
           sample_handle ''T2'' ''post2.json'' ''2022-01-22'' ''2022-01-22'']),
        next_addr = 1\<rparr>"
    by (simp add: array_sort_def sample_heap_def sample_sorted_asc)
  from getPostsMostRecent_is_ascending_sort [of sample_host
      "(empty_heap, BlogPostMetaList_new ''testdir.json'' ''sample/'')" 0 sample_heap sample_ready]
    sample_getPosts
  have "getPostsMostRecent sample_host
          (empty_heap, BlogPostMetaList_new ''testdir.json'' ''sample/'') =
        Inr (0, array_sort
          (\<lambda>a b. postSorter sample_host ''created'' False (meta_object a) (meta_object b)) 0
          sample_heap, sample_ready)"
    by blast
  with sorted sample_getPosts show ?thesis by simp
qed

lemma BlogPostMetaList_new_fields:
  "BlogPostMetaList_new file dir =
     \<lparr>directory = dir, path = dir @ file, initialized = True, posts = Promise_pending\<rparr>"
  by (simp add: BlogPostMetaList_new_def init_sync_def)

lemma length_convert_entries:
  "convert_entries H dir entries = Inr ms \<Longrightarrow> length ms = length entries"
  by (induction entries arbitrary: ms) (auto split: sum.splits)

lemma init_resume_result:
  assumes "init_resume H (h, this) = Inr (r, h', this')"
  shows "\<exists>doc entries.
      fetch H (path this) = Some doc \<and> get_prop doc ''posts'' = Inr (JArr entries) \<and>
      convert_entries H (directory this) entries = Inr (cells h' r) \<and>
      this' = this\<lparr>posts := Array_ref r\<rparr> \<and> r = next_addr h"
proof -
  from assms obtain doc where doc: "fetch H (path this) = Some doc"
    by (auto simp: init_resume_def getJsonData_def and_then_def split: option.splits)
  with assms obtain v where v: "get_prop doc ''posts'' = Inr v"
    by (auto simp: init_resume_def getJsonData_def and_then_def split: sum.splits)
  with assms doc obtain ms where ms: "convertToMetadataObject H (directory this) v = Inr ms"
    by (auto simp: init_resume_def getJsonData_def and_then_def split: sum.splits)
  then obtain entries where e: "v = JArr entries" "convert_entries H (directory this) entries = Inr ms"
    by (cases v) auto
  from assms doc v ms have "r = next_addr h" "cells h' r = ms" "this' = this\<lparr>posts := Array_ref r\<rparr>"
    by (auto simp: init_resume_def getJsonData_def and_then_def)
  with doc v e show ?thesis by auto
qed

text \<open>
  Claim C2, as the code has it. The constructor calls \<^verbatim>\<open>init\<close>, which sets the flag before
  its first \<^verbatim>\<open>await\<close>: a freshly constructed index has its flag true and holds in
  \<^verbatim>\<open>posts\<close> the pending promise of \<^verbatim>\<open>init\<close>, not an empty sequence. After one successful
  retrieval call the flag is true and \<^verbatim>\<open>posts\<close> is the array of the handles converted
  from the entries of the \<^verbatim>\<open>posts\<close> array of the fetched document, one for each entry, in
  the order of the document.
\<close>

theorem fresh_index_then_retrieval:
  "initialized (BlogPostMetaList_new file dir) \<and>
   posts (BlogPostMetaList_new file dir) = Promise_pending \<and>
   (getPosts H (h, BlogPostMetaList_new file dir) = Inr (res, h', this') \<longrightarrow>
      initialized this' \<and>
      (\<exists>r doc entries.
          res = Some r \<and> posts this' = Array_ref r \<and>
          fetch H (dir @ file) = Some doc \<and> get_prop doc ''posts'' = Inr (JArr entries) \<and>
          convert_entries H dir entries = Inr (cells h' r) \<and>
          length (cells h' r) = length entries))"
proof (intro conjI impI)
  show "initialized (BlogPostMetaList_new file dir)"
    by (simp add: BlogPostMetaList_new_fields)
  show "posts (BlogPostMetaList_new file dir) = Promise_pending"
    by (simp add: BlogPostMetaList_new_fields)
next
  assume g: "getPosts H (h, BlogPostMetaList_new file dir) = Inr (res, h', this')"
  then obtain r where r: "res = Some r"
      "init_resume H (h, BlogPostMetaList_new file dir) = Inr (r, h', this')"
    by (auto simp: getPosts_def BlogPostMetaList_new_fields and_then_def split: sum.splits)
  from init_resume_result [OF r(2)] obtain doc entries where
    d: "fetch H (dir @ file) = Some doc" "get_prop doc ''posts'' = Inr (JArr entries)"
       "convert_entries H dir entries = Inr (cells h' r)"
       "this' = (BlogPostMetaList_new file dir)\<lparr>posts := Array_ref r\<rparr>"
    by (auto simp: BlogPostMetaList_new_fields)
  from d(4) show "initialized this'" by (simp add: BlogPostMetaList_new_fields)
  from d(4) have "posts this' = Array_ref r" by simp
  with r(1) d length_convert_entries [OF d(3)]
  show "\<exists>r doc entries.
          res = Some r \<and> posts this' = Array_ref r \<and>
          fetch H (dir @ file) = Some doc \<and> get_prop doc ''posts'' = Inr (JArr entries) \<and>
          convert_entries H dir entries = Inr (cells h' r) \<and>
          length (cells h' r) = length entries"
    by blast
qed

theorem fresh_index_then_retrieval_witness:
  "getPosts sample_host (empty_heap, BlogPostMetaList_new ''testdir.json'' ''sample/'') =
     Inr (Some 0, sample_heap, sample_ready) \<and>
   initialized sample_ready \<and> posts sample_ready = Array_ref 0 \<and>
   length (cells sample_heap 0) = 3"
proof -
  from fresh_index_then_retrieval [of "''testdir.json''" "''sample/''" sample_host empty_heap
      "Some 0" sample_heap sample_ready] sample_getPosts
  have "initialized sample_ready \<and>
      (\<exists>r doc entries. Some 0 = Some r \<and> posts sample_ready = Array_ref r \<and>
          fetch sample_host (''sample/'' @ ''testdir.json'') = Some doc \<and>
          get_prop doc ''posts'' = Inr (JArr entries) \<and>
          convert_entries sample_host ''sample/'' entries = Inr (cells sample_heap r) \<and>
          length (cells sample_heap r) = length entries)"
    by blast
  then have "initialized sample_ready \<and> posts sample_ready = Array_ref 0"
    by auto
  with sample_getPosts show ?thesis
    by (simp add: sample_heap_def sample_handles_def)
qed

text \<open>
  The claim as the specification states it fails on the sample index: right after
  construction the flag is not false, and \<^verbatim>\<open>posts\<close> is a pending promise.
\<close>

theorem fresh_index_counterexample:
  "initialized (BlogPostMetaList_new ''testdir.json'' ''sample/'') \<noteq> False \<and>
   posts (BlogPostMetaList_new ''testdir.json'' ''sample/'') = Promise_pending"
  by (simp add: BlogPostMetaList_new_fields)







section \<open>The renderers\<close>

lemma updatedParagraph_nonempty: "updatedParagraph H post \<noteq> []"
  by (simp add: updatedParagraph_def)

lemma num_strict_neq_valid: "x \<noteq> NaN \<Longrightarrow> y \<noteq> NaN \<Longrightarrow> num_strict_neq x y = (x \<noteq> y)"
  by (cases x; cases y) auto

text \<open>
  Claim C7. The output of \<^verbatim>\<open>getTimestampHtml\<close> is the paragraph of the creation date
  followed by the paragraph of the update date if and only if the two time values
  differ under \<^verbatim>\<open>!==\<close>, and is the paragraph of the creation date alone otherwise. For
  every well-formed post, one whose two dates are valid, that is: the update paragraph
  is there if and only if the update instant differs from the creation instant, and
  the output is the one paragraph if and only if the two instants are the same.
\<close>

theorem getTimestampHtml_update_paragraph:
  "(getTimestampHtml H post = createdParagraph H post @ updatedParagraph H post
      \<longleftrightarrow> num_strict_neq (created post) (updated post)) \<and>
   (getTimestampHtml H post = createdParagraph H post
      \<longleftrightarrow> \<not> num_strict_neq (created post) (updated post)) \<and>
   (created post \<noteq> NaN \<and> updated post \<noteq> NaN \<longrightarrow>
      (getTimestampHtml H post = createdParagraph H post @ updatedParagraph H post
         \<longleftrightarrow> updated post \<noteq> created post) \<and>
      (getTimestampHtml H post = createdParagraph H post
         \<longleftrightarrow> updated post = created post))"
  using updatedParagraph_nonempty [of H post]
  by (auto simp add: getTimestampHtml_def num_strict_neq_valid)

theorem getTimestampHtml_update_paragraph_witness:
  "created (sample_blogpost (Finite 1642636800000) (Finite 1642636800000)) \<noteq> NaN \<and>
   updated (sample_blogpost (Finite 1642636800000) (Finite 1642636800000)) \<noteq> NaN \<and>
   getTimestampHtml sample_host (sample_blogpost (Finite 1642636800000) (Finite 1642636800000)) =
     ''<p class=\"timestamp\">Written by Au on January 20, 2022</p>'' \<and>
   created (sample_blogpost (Finite 1642636800000) (Finite 1642723200000)) \<noteq> NaN \<and>
   updated (sample_blogpost (Finite 1642636800000) (Finite 1642723200000)) \<noteq> NaN \<and>
   getTimestampHtml sample_host (sample_blogpost (Finite 1642636800000) (Finite 1642723200000)) =
     ''<p class=\"timestamp\">Written by Au on January 20, 2022</p><p class=\"timestamp\">Updated on January 21, 2022</p>''"
proof -
  let ?same = "sample_blogpost (Finite 1642636800000) (Finite 1642636800000)"
  let ?diff = "sample_blogpost (Finite 1642636800000) (Finite 1642723200000)"
  have valid: "created ?same \<noteq> NaN" "updated ?same \<noteq> NaN"
      "created ?diff \<noteq> NaN" "updated ?diff \<noteq> NaN"
    by (simp_all add: sample_blogpost_def)
  have c: "createdParagraph sample_host ?same =
      ''<p class=\"timestamp\">Written by Au on January 20, 2022</p>''"
    "createdParagraph sample_host ?diff =
      ''<p class=\"timestamp\">Written by Au on January 20, 2022</p>''"
    by (simp_all add: sample_blogpost_def createdParagraph_def sample_host_def sample_dates_def)
  have u: "updatedParagraph sample_host ?diff =
      ''<p class=\"timestamp\">Updated on January 21, 2022</p>''"
    by (simp add: sample_blogpost_def updatedParagraph_def sample_host_def sample_dates_def)
  from getTimestampHtml_update_paragraph [of sample_host ?same] valid(1,2)
  have one: "getTimestampHtml sample_host ?same = createdParagraph sample_host ?same"
    by (simp add: sample_blogpost_def)
  from getTimestampHtml_update_paragraph [of sample_host ?diff] valid(3,4)
  have two: "getTimestampHtml sample_host ?diff =
      createdParagraph sample_host ?diff @ updatedParagraph sample_host ?diff"
    by (simp add: sample_blogpost_def)
  from valid one two c u show ?thesis by simp
qed

section \<open>Equality\<close>

lemma equals_returns: "\<exists>b. equals this obj = Inr b"
  by (cases "equals_try this obj") (auto simp add: equals_def)

lemma outcome_Inr: "outcome c = Inr v \<Longrightarrow> c = Returns v"
  by (cases c) auto

lemma invoke_Inr: "invoke (Obj acc) m = Inr v \<Longrightarrow> m acc = Some (Returns v)"
  by (cases "m acc") (auto dest: outcome_Inr)

lemma invoke_usable: "invoke (Obj acc) m = Inr v \<Longrightarrow> \<not> unusable (m acc)"
  using invoke_Inr [of acc m v] by (auto simp del: invoke.simps)

lemma invoke_usable2:
  "invoke (Obj acc) m = Inr c \<Longrightarrow> outcome c = Inr v \<Longrightarrow> \<not> unusable2 (m acc)"
  using invoke_Inr [of acc m c] outcome_Inr [of c v] by (auto simp del: invoke.simps)

lemma and_then_Inr_iff: "and_then r f = Inr v \<longleftrightarrow> (\<exists>x. r = Inr x \<and> f x = Inr v)"
  by (cases r) (auto simp: and_then_def)

lemma equals_try_True:
  assumes "equals_try this (Obj acc) = Inr True"
  shows "\<not> malformed (Obj acc)"
  using assms unfolding equals_try_def
  by (auto simp add: and_then_Inr_iff simp del: invoke.simps split: if_splits
      dest: invoke_usable invoke_usable2)

text \<open>Two posts with the same fields are equal: the comparison can succeed.\<close>

lemma equals_sample_post:
  "equals (sample_blogpost (Finite 1642636800000) (Finite 1642723200000))
     (post_object (sample_blogpost (Finite 1642636800000) (Finite 1642723200000))) = Inr True"
  by (simp add: equals_def equals_try_def and_then_def post_object_def sample_blogpost_def)

text \<open>
  Claim C8. For every constructed post and every value \<open>obj\<close>, \<^verbatim>\<open>equals\<close> returns a boolean
  and does not throw; when \<open>obj\<close> is \<^verbatim>\<open>null\<close> or \<^verbatim>\<open>undefined\<close>, a value of another type, or
  an object on which one of the accessor methods is missing or throws, the result is
  false.
\<close>

theorem equals_never_throws:
  "(\<exists>b. equals this obj = Inr b) \<and> (malformed obj \<longrightarrow> equals this obj = Inr False)"
proof (intro conjI impI)
  show "\<exists>b. equals this obj = Inr b" by (rule equals_returns)
next
  assume m: "malformed obj"
  show "equals this obj = Inr False"
  proof (cases "equals_try this obj")
    case (Inl e)
    then show ?thesis by (simp add: equals_def)
  next
    case (Inr b)
    have "b = False"
    proof (cases obj)
      case Nullish
      with Inr show ?thesis by (simp add: equals_try_def and_then_def)
    next
      case (Obj acc)
      with m equals_try_True [of this acc] Inr show ?thesis by (cases b) auto
    qed
    with Inr show ?thesis by (simp add: equals_def)
  qed
qed

theorem equals_never_throws_witness:
  "malformed Nullish \<and>
   equals (sample_blogpost (Finite 1642636800000) (Finite 1642723200000)) Nullish = Inr False \<and>
   malformed (Obj no_accessors) \<and>
   equals (sample_blogpost (Finite 1642636800000) (Finite 1642723200000)) (Obj no_accessors) =
     Inr False \<and>
   malformed sample_without_getContent \<and>
   equals (sample_blogpost (Finite 1642636800000) (Finite 1642723200000))
     sample_without_getContent = Inr False"
  using equals_never_throws [of "sample_blogpost (Finite 1642636800000) (Finite 1642723200000)" Nullish]
    equals_never_throws [of "sample_blogpost (Finite 1642636800000) (Finite 1642723200000)"
      "Obj no_accessors"]
    equals_never_throws [of "sample_blogpost (Finite 1642636800000) (Finite 1642723200000)"
      sample_without_getContent]
  by (simp add: sample_without_getContent_def no_accessors_def)

section \<open>Page assembly on the sample site\<close>

lemma sample_fetch_howto:
  "fetch sample_host ''sample/howto.json'' =
     Some (JObj [(''posts'', JArr [sample_entry ''Guide'' ''package.json-explained.json''
                                   ''2022-01-20'' ''2022-01-20''])])"
  by (simp add: sample_host_def sample_files_def)

lemma sample_howto_getPosts:
  "getPosts sample_host (empty_heap, BlogPostMetaList_new ''howto.json'' ''sample/'') =
     Inr (Some 0, \<lparr>cells = (\<lambda>r. [])(0 := [sample_guide_handle]), next_addr = 1\<rparr>,
          \<lparr>directory = ''sample/'', path = ''sample/howto.json'', initialized = True,
           posts = Array_ref 0\<rparr>)"
  by (simp add: getPosts_def BlogPostMetaList_new_def init_sync_def init_resume_def
      getJsonData_def sample_fetch_howto and_then_def sample_entry_handle empty_heap_def
      sample_guide_handle_def)

lemma sample_howto_sorted:
  "getPostsSorted sample_host attr reverse
       (empty_heap, BlogPostMetaList_new ''howto.json'' ''sample/'') =
     Inr (0, \<lparr>cells = (\<lambda>r. [])(0 := [sample_guide_handle]), next_addr = 1\<rparr>,
          \<lparr>directory = ''sample/'', path = ''sample/howto.json'', initialized = True,
           posts = Array_ref 0\<rparr>)"
  by (simp add: getPostsSorted_after_getPosts [OF sample_howto_getPosts] array_sort_def sort_by_def)

lemma sample_fetch_guide:
  "fetch sample_host ''sample//package.json-explained.json'' =
     Some (sample_post ''Guide'' ''2022-01-20'' ''2022-01-20'' ''Every field explained'')"
  by (simp add: sample_host_def sample_files_def)

lemma sample_guide_post:
  "getPost sample_host sample_guide_handle =
     Inr \<lparr>title = JStr ''Guide'', created = Finite 1642636800000, updated = Finite 1642636800000,
          author = JStr ''Au'', tags = [''x'', ''y''], content = JStr ''Every field explained''\<rparr>"
proof -
  have p: "meta_path sample_guide_handle = ''sample//package.json-explained.json''"
    by (simp add: sample_guide_handle_def sample_handle_def)
  have d: "DateConstruct sample_host (JStr ''2022-01-20'') = Finite 1642636800000"
    by (simp add: sample_host_def sample_dates_def)
  show ?thesis
    by (simp add: getPost_def getJsonData_def p sample_fetch_guide and_then_def BlogPost_new_def
        sample_post_def d)
qed

lemma sample_guide_rendered:
  "getPostHtml sample_host sample_guide_handle False = Inr sample_guide_html"
proof -
  have f: "toLocaleString sample_host (Finite 1642636800000) = ''January 20, 2022''"
    by (simp add: sample_host_def sample_dates_def)
  show ?thesis
    by (simp add: getPostHtml_def sample_guide_post and_then_def getTitleHtml_def
        getTimestampHtml_def createdParagraph_def f replace_newlines_def sample_guide_html_def)
qed

lemma sample_page_blog: "sample_page ''blog'' = Some ''old content''"
  by (simp add: sample_page_def)

section \<open>Listing the posts\<close>

lemma render_posts_concat:
  "render_posts H c ms = Inr c' \<Longrightarrow>
   \<exists>htmls. map (\<lambda>m. getPostHtml H m False) ms = map Inr htmls \<and>
           content_string c' = content_string c @ concat htmls"
proof (induction ms arbitrary: c)
  case Nil
  then show ?case by simp
next
  case (Cons m ms)
  then obtain html where h: "getPostHtml H m False = Inr html"
      "render_posts H (append_html c html) ms = Inr c'"
    by (auto split: sum.splits)
  from Cons.IH [OF h(2)] obtain htmls where
    "map (\<lambda>m. getPostHtml H m False) ms = map Inr htmls"
    "content_string c' = content_string (append_html c html) @ concat htmls"
    by blast
  with h(1) have "map (\<lambda>m. getPostHtml H m False) (m # ms) = map Inr (html # htmls) \<and>
      content_string c' = content_string c @ concat (html # htmls)"
    by (simp add: append_html_def)
  then show ?case by blast
qed

text \<open>
  Whenever \<^verbatim>\<open>getBlogPosts\<close> succeeds, the text it writes is \<^verbatim>\<open>[object Promise]\<close> followed by
  the rendered posts in sorted order: \<^verbatim>\<open>content\<close> starts as the promise that the call of
  \<^verbatim>\<open>getPostFromUrl\<close> without \<^verbatim>\<open>await\<close> returns.
\<close>

lemma getBlogPosts_written:
  assumes "getBlogPosts H doc domId dir file maxPosts sortBy reverse = Inr doc'"
  shows "\<exists>postList h this htmls.
      getPostsSorted H sortBy reverse (empty_heap, BlogPostMetaList_new file dir) =
        Inr (postList, h, this) \<and>
      map (\<lambda>m. getPostHtml H m False) (cells h postList) = map Inr htmls \<and>
      doc' = doc(domId \<mapsto> ''[object Promise]'' @ concat htmls)"
proof -
  from assms obtain postList h this where
    s: "getPostsSorted H sortBy reverse (empty_heap, BlogPostMetaList_new file dir) =
        Inr (postList, h, this)"
    by (auto simp: getBlogPosts_def and_then_def split: sum.splits)
  with assms obtain c where
    c: "render_posts H (Promise_of getPostFromUrl) (cells h postList) = Inr c"
       "set_innerHTML doc domId (content_string c) = Inr doc'"
    by (auto simp: getBlogPosts_def and_then_def split: sum.splits)
  from render_posts_concat [OF c(1)] obtain htmls where
    h: "map (\<lambda>m. getPostHtml H m False) (cells h postList) = map Inr htmls"
       "content_string c = ''[object Promise]'' @ concat htmls"
    by auto
  from c(2) h(2) have "doc' = doc(domId \<mapsto> ''[object Promise]'' @ concat htmls)"
    by (auto simp: set_innerHTML_def split: option.splits)
  with s h(1) show ?thesis by blast
qed

text \<open>
  Claim C4, on the sample site. The index \<^verbatim>\<open>sample/howto.json\<close> has one post, whose
  rendered text is \<open>sample_guide_html\<close>. \<^verbatim>\<open>getBlogPosts\<close> writes into the element \<^verbatim>\<open>blog\<close>
  the text \<^verbatim>\<open>[object Promise]\<close> followed by the rendered post, which is not the
  concatenation of the rendered posts alone, as the claim has it.
\<close>

theorem getBlogPosts_writes_promise_text:
  "getPostHtml sample_host sample_guide_handle False = Inr sample_guide_html \<and>
   getBlogPosts sample_host sample_page ''blog'' ''sample/'' ''howto.json'' 5 ''created'' True =
     Inr (sample_page(''blog'' \<mapsto> ''[object Promise]'' @ sample_guide_html)) \<and>
   ''[object Promise]'' @ sample_guide_html \<noteq> sample_guide_html"
  by (simp add: getBlogPosts_def sample_howto_sorted and_then_def sample_guide_rendered
      append_html_def set_innerHTML_def sample_page_blog)

section \<open>The latest post\<close>

lemma lastIndexOf_from_absent: "c \<notin> set s \<Longrightarrow> lastIndexOf_from i found s c = found"
  by (induction s arbitrary: i found) auto

lemma lastIndexOf_from_present:
  "c \<in> set s \<Longrightarrow>
   \<exists>k < length s. lastIndexOf_from i found s c = int (i + k) \<and> s ! k = c \<and>
                   c \<notin> set (drop (Suc k) s)"
proof (induction s arbitrary: i found)
  case Nil
  then show ?case by simp
next
  case (Cons x xs)
  show ?case
  proof (cases "c \<in> set xs")
    case True
    from Cons.IH [OF True, of "Suc i" "if x = c then int i else found"]
    obtain k where "k < length xs"
        "lastIndexOf_from (Suc i) (if x = c then int i else found) xs c = int (Suc i + k)"
        "xs ! k = c" "c \<notin> set (drop (Suc k) xs)"
      by blast
    then have "Suc k < length (x # xs) \<and>
        lastIndexOf_from i found (x # xs) c = int (i + Suc k) \<and> (x # xs) ! Suc k = c \<and>
        c \<notin> set (drop (Suc (Suc k)) (x # xs))"
      by simp
    then show ?thesis by blast
  next
    case False
    with Cons.prems have "x = c" by simp
    with False have "0 < length (x # xs) \<and>
        lastIndexOf_from i found (x # xs) c = int (i + 0) \<and> (x # xs) ! 0 = c \<and>
        c \<notin> set (drop (Suc 0) (x # xs))"
      by (simp add: lastIndexOf_from_absent)
    then show ?thesis by blast
  qed
qed

text \<open>
  The cut of a text at least \<open>maxChars\<close> long: the text up to the last space among its
  first \<open>maxChars\<close> characters, and nothing when there is no space among them.
\<close>

lemma cut_content_backs_off:
  assumes "0 \<le> maxChars" and "nat maxChars \<le> length html"
  shows "(CHR '' '' \<notin> set (take (nat maxChars) html) \<longrightarrow> cut_content html maxChars = []) \<and>
         (CHR '' '' \<in> set (take (nat maxChars) html) \<longrightarrow>
            (\<exists>k < nat maxChars. cut_content html maxChars = take k html \<and> html ! k = CHR '' '' \<and>
                 CHR '' '' \<notin> set (drop (Suc k) (take (nat maxChars) html))))"
proof -
  let ?p = "take (nat maxChars) html"
  from assms have len: "int (length ?p) = maxChars" by simp
  then have cut: "cut_content html maxChars =
      substr0 ?p (min (int (length ?p)) (lastIndexOf ?p CHR '' ''))"
    by (simp add: cut_content_def substr0_def Let_def)
  show ?thesis
  proof (intro conjI impI)
    assume "CHR '' '' \<notin> set ?p"
    then have "lastIndexOf ?p CHR '' '' = - 1"
      by (simp add: lastIndexOf_def lastIndexOf_from_absent)
    with cut show "cut_content html maxChars = []" by (simp add: substr0_def)
  next
    assume "CHR '' '' \<in> set ?p"
    from lastIndexOf_from_present [OF this, of 0 "- 1"] obtain k where
      k: "k < length ?p" "lastIndexOf ?p CHR '' '' = int k" "?p ! k = CHR '' ''"
         "CHR '' '' \<notin> set (drop (Suc k) ?p)"
      by (auto simp: lastIndexOf_def)
    from k(1) assms have kn: "k < nat maxChars" by simp
    from cut k(1,2) have "cut_content html maxChars = take k ?p"
      by (simp add: substr0_def min_def)
    with kn have c: "cut_content html maxChars = take k html" by (simp add: min_def)
    from k(3) kn have "html ! k = CHR '' ''" by simp
    with kn c k(4) show "\<exists>k < nat maxChars. cut_content html maxChars = take k html \<and>
        html ! k = CHR '' '' \<and> CHR '' '' \<notin> set (drop (Suc k) ?p)"
      by blast
  qed
qed

lemma sample_guide_cut:
  "cut_content sample_guide_html 100 =
     ''<article><h3>Guide</h3><p class=\"timestamp\">Written by Au on January 20, 2022</p><p>Every field''"
  by (simp add: cut_content_def substr0_def sample_guide_html_def lastIndexOf_def)

text \<open>
  Claim C5, on the sample site. The post of \<^verbatim>\<open>sample/howto.json\<close> has the id
  \<^verbatim>\<open>package.json-explained.json\<close>, and a limit of 100 characters falls inside the word
  \<^verbatim>\<open>explained\<close> of its rendered text. \<^verbatim>\<open>latestBlogPost\<close> keeps the text up to the space
  before that word and appends the link; the link names \<^verbatim>\<open>package-explained.json\<close>, the
  id without its first \<^verbatim>\<open>.json\<close>, and not \<^verbatim>\<open>package.json-explained\<close>, the id without its
  \<^verbatim>\<open>.json\<close> suffix.
\<close>

theorem latestBlogPost_link_keeps_suffix:
  "latestBlogPost sample_host sample_page ''blog'' ''sample/'' ''howto.json'' 100 False =
     Inr (sample_page(''blog'' \<mapsto>
       ''<article><h3>Guide</h3><p class=\"timestamp\">Written by Au on January 20, 2022</p><p>Every field'' @
       readMoreLink ''package-explained.json'')) \<and>
   meta_id sample_guide_handle = JStr ''package.json-explained.json'' \<and>
   spec_strip_json_suffix ''package.json-explained.json'' = ''package.json-explained'' \<and>
   readMoreLink ''package-explained.json'' \<noteq>
     readMoreLink (spec_strip_json_suffix ''package.json-explained.json'')"
proof -
  have i: "meta_id sample_guide_handle = JStr ''package.json-explained.json''"
    by (simp add: sample_guide_handle_def sample_handle_def)
  have r: "id_without_json (JStr ''package.json-explained.json'') = Inr ''package-explained.json''"
    by simp
  have s: "spec_strip_json_suffix ''package.json-explained.json'' = ''package.json-explained''"
    by (simp add: spec_strip_json_suffix_def)
  have l: "latestBlogPost sample_host sample_page ''blog'' ''sample/'' ''howto.json'' 100 False =
     Inr (sample_page(''blog'' \<mapsto>
       ''<article><h3>Guide</h3><p class=\"timestamp\">Written by Au on January 20, 2022</p><p>Every field'' @
       readMoreLink ''package-explained.json''))"
    by (simp add: latestBlogPost_def sample_howto_sorted and_then_def sample_guide_rendered
        sample_guide_cut i r set_innerHTML_def sample_page_blog del: id_without_json.simps)
  have n: "readMoreLink ''package-explained.json'' \<noteq> readMoreLink ''package.json-explained''"
    by (simp add: readMoreLink_def)
  from i s l n show ?thesis by simp
qed

end
